theory Spec2Isabelle
  imports Main
begin

section \<open>The Magento REST stream client (\<^verbatim>\<open>tap_magento/client.py\<close>)\<close>

text \<open>
  The class \<^verbatim>\<open>MagentoStream\<close> is embedded function by function. Exceptions are values
  of the type \<open>exn\<close>, and a method that may raise returns \<open>exn + 'a\<close> with \<open>Inl\<close> for the
  raised exception. Methods that read or write \<^verbatim>\<open>self.access_token\<close> or talk to the
  network take the stream object and the list of requests sent so far, and return both
  updated.
\<close>

subsection \<open>Exceptions\<close>

text \<open>
  One constructor per exception class that the module raises or names.
  \<open>ConnectionError\<close> is Python's built-in class of that name (the module never imports
  another one); \<open>RequestsConnectionError\<close> is \<^verbatim>\<open>requests.exceptions.ConnectionError\<close>,
  which derives from \<^verbatim>\<open>RequestException\<close> and is no subclass of the built-in class.
  \<open>HTTPError\<close> is what \<^verbatim>\<open>Response.raise_for_status\<close> raises, \<open>JSONDecodeError\<close> what
  \<^verbatim>\<open>Response.json\<close> raises on a body that is not JSON.
\<close>

datatype exn =
    RetriableAPIError string
  | FatalAPIError string
  | ReadTimeout
  | RequestsConnectionError
  | ConnectionError
  | HTTPError int
  | JSONDecodeError
  | TypeError
  | AttributeError
  | KeyError

fun and_then :: "exn + 'a \<Rightarrow> ('a \<Rightarrow> exn + 'b) \<Rightarrow> exn + 'b" where
  "and_then (Inl e) f = Inl e"
| "and_then (Inr x) f = f x"

subsection \<open>JSON values as Python objects\<close>

text \<open>
  What \<^verbatim>\<open>response.json()\<close> returns: \<open>JNull\<close> is \<^verbatim>\<open>None\<close>, \<open>JInt\<close> an unbounded Python
  integer, \<open>JObj kvs\<close> the dictionary whose lookup is \<open>map_of kvs\<close>. JSON numbers with a
  fraction or an exponent become Python floats and are not part of the model.
\<close>

datatype json =
    JNull
  | JBool bool
  | JInt int
  | JStr string
  | JArr "json list"
  | JObj "(string \<times> json) list"

text \<open>Python's truth value of an object (\<^verbatim>\<open>if x\<close>, \<^verbatim>\<open>not x\<close>).\<close>

fun truthy :: "json \<Rightarrow> bool" where
  "truthy JNull = False"
| "truthy (JBool b) = b"
| "truthy (JInt n) = (n \<noteq> 0)"
| "truthy (JStr s) = (s \<noteq> [])"
| "truthy (JArr xs) = (xs \<noteq> [])"
| "truthy (JObj kvs) = (kvs \<noteq> [])"

text \<open>\<^verbatim>\<open>d.get(key, default)\<close>; only dictionaries have the method.\<close>

fun py_get :: "json \<Rightarrow> string \<Rightarrow> json \<Rightarrow> exn + json" where
  "py_get (JObj kvs) k d = Inr (case map_of kvs k of None \<Rightarrow> d | Some v \<Rightarrow> v)"
| "py_get _ k d = Inl AttributeError"

text \<open>\<^verbatim>\<open>x == y\<close>: \<^verbatim>\<open>bool\<close> is a subclass of \<^verbatim>\<open>int\<close>, dictionaries compare by content.\<close>

fun py_eq :: "json \<Rightarrow> json \<Rightarrow> bool"
  and list_eq :: "json list \<Rightarrow> json list \<Rightarrow> bool" where
  "py_eq JNull JNull = True"
| "py_eq (JBool a) (JBool b) = (a = b)"
| "py_eq (JBool a) (JInt n) = ((if a then 1 else 0) = n)"
| "py_eq (JInt m) (JBool b) = (m = (if b then 1 else 0))"
| "py_eq (JInt m) (JInt n) = (m = n)"
| "py_eq (JStr s) (JStr t) = (s = t)"
| "py_eq (JArr xs) (JArr ys) = list_eq xs ys"
| "py_eq (JObj a) (JObj b) =
     (set (map fst a) = set (map fst b) \<and>
      list_all (\<lambda>(k, v). case map_of b k of
                            None \<Rightarrow> False
                          | Some w \<Rightarrow> (if map_of a k = Some v then py_eq v w else True)) a)"
| "py_eq _ _ = False"
| "list_eq [] [] = True"
| "list_eq (x # xs) (y # ys) = (if py_eq x y then list_eq xs ys else False)"
| "list_eq _ _ = False"

text \<open>
  \<^verbatim>\<open>s > t\<close> on strings compares code points from the left; on the UTF-8 bytes of
  \<open>string\<close> this is the same order.
\<close>

fun str_gt :: "string \<Rightarrow> string \<Rightarrow> bool" where
  "str_gt [] t = False"
| "str_gt (c # cs) [] = True"
| "str_gt (c # cs) (d # ds) =
     (if c = d then str_gt cs ds else (of_char d :: nat) < of_char c)"

text \<open>
  \<^verbatim>\<open>x > y\<close>: defined between numbers, between strings and between lists (first
  unequal pair decides, else the longer list is greater); any other pair of operands
  raises \<^verbatim>\<open>TypeError\<close>.
\<close>

fun py_gt :: "json \<Rightarrow> json \<Rightarrow> exn + bool"
  and list_gt :: "json list \<Rightarrow> json list \<Rightarrow> exn + bool" where
  "py_gt (JInt m) (JInt n) = Inr (n < m)"
| "py_gt (JInt m) (JBool b) = Inr ((if b then 1 else 0) < m)"
| "py_gt (JBool a) (JInt n) = Inr (n < (if a then 1 else 0))"
| "py_gt (JBool a) (JBool b) = Inr (a \<and> \<not> b)"
| "py_gt (JStr s) (JStr t) = Inr (str_gt s t)"
| "py_gt (JArr xs) (JArr ys) = list_gt xs ys"
| "py_gt _ _ = Inl TypeError"
| "list_gt [] ys = Inr False"
| "list_gt (x # xs) [] = Inr True"
| "list_gt (x # xs) (y # ys) = (if py_eq x y then list_gt xs ys else py_gt x y)"

text \<open>\<^verbatim>\<open>x * n\<close> for an integer literal \<open>n\<close>: a product of numbers, or a sequence repeated.\<close>

fun py_mul :: "json \<Rightarrow> int \<Rightarrow> exn + json" where
  "py_mul (JInt m) n = Inr (JInt (m * n))"
| "py_mul (JBool b) n = Inr (JInt ((if b then 1 else 0) * n))"
| "py_mul (JStr s) n = Inr (JStr (concat (replicate (nat n) s)))"
| "py_mul (JArr xs) n = Inr (JArr (concat (replicate (nat n) xs)))"
| "py_mul JNull n = Inl TypeError"
| "py_mul (JObj kvs) n = Inl TypeError"

text \<open>\<^verbatim>\<open>x + n\<close> for an integer literal \<open>n\<close>: only numbers can be added to an integer.\<close>

fun py_add :: "json \<Rightarrow> int \<Rightarrow> exn + json" where
  "py_add (JInt m) n = Inr (JInt (m + n))"
| "py_add (JBool b) n = Inr (JInt ((if b then 1 else 0) + n))"
| "py_add _ n = Inl TypeError"

text \<open>\<^verbatim>\<open>str(n)\<close> of an integer, as an f-string renders it.\<close>

fun str_of_nat :: "nat \<Rightarrow> string" where
  "str_of_nat n =
     (if n < 10 then [''0123456789'' ! n]
      else str_of_nat (n div 10) @ [''0123456789'' ! (n mod 10)])"

definition str_of_int :: "int \<Rightarrow> string" where
  "str_of_int i = (if i < 0 then CHR ''-'' # str_of_nat (nat (- i)) else str_of_nat (nat i))"

subsection \<open>Responses, configuration and the stream object\<close>

text \<open>
  A \<^verbatim>\<open>requests.Response\<close>: \<open>body\<close> is the value \<^verbatim>\<open>response.json()\<close> returns, \<open>None\<close> when
  the body is not JSON (the call then raises \<open>JSONDecodeError\<close>).
\<close>

record response =
  status_code :: int
  reason :: string
  body :: "json option"

text \<open>
  The tap's settings, all strings; \<open>None\<close> is a key that is absent, so that
  \<^verbatim>\<open>self.config.get(k)\<close> is \<^verbatim>\<open>None\<close>.
\<close>

record config =
  store_url :: "string option"
  username :: "string option"
  password :: "string option"
  api_key :: "string option"
  user_agent :: "string option"

text \<open>
  The stream object: its configuration, the attributes the framework's \<^verbatim>\<open>RESTStream\<close>
  gives it (\<^verbatim>\<open>path\<close>, \<^verbatim>\<open>replication_key\<close>, \<^verbatim>\<open>next_page_token_jsonpath\<close>) and the mutable
  \<^verbatim>\<open>access_token\<close>. The class attribute \<^verbatim>\<open>access_token = None\<close> is what every new stream
  object reads; \<^verbatim>\<open>self.access_token = ...\<close> writes the attribute of that one object and
  leaves the class attribute, and so every other stream object, as it was.
\<close>

record stream =
  config :: config
  path :: string
  replication_key :: "string option"
  next_page_token_jsonpath :: "string option"
  access_token :: json

definition records_jsonpath :: string where
  "records_jsonpath = ''$.items[*]''"

text \<open>The value of \<^verbatim>\<open>self.config.get(k)\<close> as a Python object.\<close>

fun config_get :: "string option \<Rightarrow> json" where
  "config_get None = JNull"
| "config_get (Some s) = JStr s"

text \<open>
  An optional string attribute under \<^verbatim>\<open>if x:\<close>: the string when it is neither \<^verbatim>\<open>None\<close>
  nor empty.
\<close>

fun configured :: "string option \<Rightarrow> string option" where
  "configured None = None"
| "configured (Some s) = (if s = [] then None else Some s)"

subsection \<open>Pagination\<close>

text \<open>
  \<^verbatim>\<open>get_next_page_token(self, response, previous_token)\<close>. The JSON-path extractor of
  the framework, \<^verbatim>\<open>extract_jsonpath\<close>, is a parameter: it maps an expression and a
  document to the list of matches. The page size \<open>300\<close> is the literal of the source.
\<close>

definition get_next_page_token ::
  "(string \<Rightarrow> json \<Rightarrow> json list) \<Rightarrow> stream \<Rightarrow> response \<Rightarrow> json \<Rightarrow> exn + json" where
  "get_next_page_token extract_jsonpath self response previous_token =
     (case configured (next_page_token_jsonpath self) of
        Some expr \<Rightarrow>
          (case body response of
             None \<Rightarrow> Inl JSONDecodeError
           | Some json_data \<Rightarrow>
               (case extract_jsonpath expr json_data of
                  [] \<Rightarrow> Inr JNull
                | first_match # _ \<Rightarrow> Inr first_match))
      | None \<Rightarrow>
          if status_code response = 404 then Inr JNull
          else
            (case body response of
               None \<Rightarrow> Inl JSONDecodeError
             | Some json_data \<Rightarrow>
                 and_then (py_get json_data ''total_count'' (JInt 0)) (\<lambda>total_count.
                 and_then (py_get json_data ''search_criteria'' JNull) (\<lambda>search_criteria.
                 and_then (if truthy search_criteria
                           then py_get search_criteria ''current_page'' JNull
                           else Inr (JInt 1)) (\<lambda>current_page.
                 and_then (py_mul current_page 300) (\<lambda>limit.
                 and_then (py_gt total_count limit) (\<lambda>more.
                   if more then py_add current_page 1 else Inr JNull)))))))"

text \<open>
  \<^verbatim>\<open>get_url_params(self, context, next_page_token)\<close>. \<open>start_date\<close> is what the
  framework's \<^verbatim>\<open>get_starting_timestamp(context)\<close> returns and \<open>strftime\<close> renders it with
  the format \<^verbatim>\<open>%Y-%m-%d %H:%M:%S\<close>; the starting timestamp is only looked at when a
  replication key is set. The result is the dictionary \<^verbatim>\<open>params\<close>.
\<close>

definition get_url_params ::
  "stream \<Rightarrow> 'd option \<Rightarrow> ('d \<Rightarrow> string) \<Rightarrow> json \<Rightarrow> (string \<rightharpoonup> json)" where
  "get_url_params self start_date strftime next_page_token =
     (let params = Map.empty(''searchCriteria[pageSize]'' \<mapsto> JInt 300);
          params = (if \<not> truthy next_page_token
                    then params(''searchCriteria[currentPage]'' \<mapsto> JInt 1)
                    else params(''searchCriteria[currentPage]'' \<mapsto> next_page_token))
      in case configured (replication_key self) of
           Some key \<Rightarrow>
             (let params = (case start_date of
                    None \<Rightarrow> params
                  | Some d \<Rightarrow> params
                      (''sort'' \<mapsto> JStr ''asc'',
                       ''searchCriteria[filterGroups][0][filters][0][field]'' \<mapsto> JStr key,
                       ''searchCriteria[filterGroups][0][filters][0][value]'' \<mapsto>
                          JStr (strftime d),
                       ''searchCriteria[filterGroups][0][filters][0][conditionType]'' \<mapsto>
                          JStr ''gt''))
              in params(''order_by'' \<mapsto> JStr key))
         | None \<Rightarrow> params)"

subsection \<open>Validating and parsing a response\<close>

text \<open>\<^verbatim>\<open>validate_response(self, response)\<close>: returns nothing or raises.\<close>

definition validate_response :: "stream \<Rightarrow> response \<Rightarrow> exn + unit" where
  "validate_response self response =
     (if status_code response = 404 then Inr ()
      else if 400 \<le> status_code response \<and> status_code response < 500 then
        Inl (FatalAPIError
          (str_of_int (status_code response) @ '' Client Error: '' @ reason response @
           '' for path: '' @ path self))
      else if 500 \<le> status_code response \<and> status_code response < 600 then
        Inl (RetriableAPIError
          (str_of_int (status_code response) @ '' Server Error: '' @ reason response @
           '' for path: '' @ path self))
      else Inr ())"

text \<open>
  \<^verbatim>\<open>parse_response(self, response)\<close> is a generator; the model returns the list of all
  rows it yields. The \<^verbatim>\<open>return []\<close> on a 404 ends the generator at once.
\<close>

definition parse_response ::
  "(string \<Rightarrow> json \<Rightarrow> json list) \<Rightarrow> stream \<Rightarrow> response \<Rightarrow> exn + json list" where
  "parse_response extract_jsonpath self response =
     (if status_code response = 404 then Inr []
      else (case body response of
              None \<Rightarrow> Inl JSONDecodeError
            | Some json_data \<Rightarrow> Inr (extract_jsonpath records_jsonpath json_data)))"

subsection \<open>Authentication\<close>

text \<open>
  A request is the URL and the JSON payload of a POST. The network is a parameter
  \<open>post\<close>: given the requests sent so far and the next one, it raises a transport error
  or returns a response. Every function below returns the list of requests extended by
  those it sent, so that the number of HTTP calls of a run can be read off.
\<close>

type_synonym request = "string \<times> (string \<times> json) list"

type_synonym transport = "request list \<Rightarrow> request \<Rightarrow> exn + response"

text \<open>
  \<^verbatim>\<open>Response.raise_for_status()\<close> of the HTTP library raises for a client error (400 to
  499) and for a server error (500 to 599), and for no other status.
\<close>

definition raise_for_status :: "response \<Rightarrow> exn + unit" where
  "raise_for_status r =
     (if 400 \<le> status_code r \<and> status_code r < 600 then Inl (HTTPError (status_code r))
      else Inr ())"

definition response_json :: "response \<Rightarrow> exn + json" where
  "response_json r = (case body r of None \<Rightarrow> Inl JSONDecodeError | Some v \<Rightarrow> Inr v)"

definition primary_token_path :: string where
  "primary_token_path = ''/index.php/rest/V1/integration/admin/token''"

definition fallback_token_path :: string where
  "fallback_token_path = ''/rest/V1/integration/admin/token''"

definition login_payload :: "stream \<Rightarrow> (string \<times> json) list" where
  "login_payload self =
     [(''Content-Type'', JStr ''application/json''),
      (''username'', config_get (username (config self))),
      (''password'', config_get (password (config self)))]"

text \<open>
  The body of the \<^verbatim>\<open>try\<close> block of \<^verbatim>\<open>get_token\<close>: the POST, then \<^verbatim>\<open>login.json()\<close>, whose
  value is dropped, then \<^verbatim>\<open>login.raise_for_status()\<close>.
\<close>

definition try_primary :: "transport \<Rightarrow> request list \<Rightarrow> request \<Rightarrow> exn + response" where
  "try_primary post sent req =
     and_then (post sent req) (\<lambda>login.
     and_then (response_json login) (\<lambda>_.
     and_then (raise_for_status login) (\<lambda>_. Inr login)))"

text \<open>
  The two statements after the \<^verbatim>\<open>try\<close>: \<^verbatim>\<open>login.raise_for_status()\<close> and
  \<^verbatim>\<open>self.access_token = login.json()\<close>, followed by the \<^verbatim>\<open>return\<close>.
\<close>

definition store_token ::
  "stream \<Rightarrow> request list \<Rightarrow> response \<Rightarrow> (exn + json) \<times> stream \<times> request list" where
  "store_token self sent login =
     (case raise_for_status login of
        Inl e \<Rightarrow> (Inl e, self, sent)
      | Inr _ \<Rightarrow>
          (case response_json login of
             Inl e \<Rightarrow> (Inl e, self, sent)
           | Inr token \<Rightarrow> (Inr token, self\<lparr>access_token := token\<rparr>, sent)))"

text \<open>
  \<^verbatim>\<open>get_token(self)\<close>. The bare \<^verbatim>\<open>except:\<close> catches whatever the \<^verbatim>\<open>try\<close> block raises.
  \<^verbatim>\<open>self.config['store_url']\<close> raises \<open>KeyError\<close> on a missing key, first inside the
  \<^verbatim>\<open>try\<close> and then again in the handler, before anything is sent. The local \<^verbatim>\<open>now\<close> is
  never read and is left out.
\<close>

definition get_token ::
  "transport \<Rightarrow> stream \<Rightarrow> request list \<Rightarrow> (exn + json) \<times> stream \<times> request list" where
  "get_token post self sent =
     (if \<not> truthy (access_token self) then
        (case store_url (config self) of
           None \<Rightarrow> (Inl KeyError, self, sent)
         | Some url \<Rightarrow>
             (let payload = login_payload self;
                  primary = (url @ primary_token_path, payload);
                  fallback = (url @ fallback_token_path, payload)
              in case try_primary post sent primary of
                   Inr login \<Rightarrow> store_token self (sent @ [primary]) login
                 | Inl _ \<Rightarrow>
                     (case post (sent @ [primary]) fallback of
                        Inl e \<Rightarrow> (Inl e, self, sent @ [primary, fallback])
                      | Inr login \<Rightarrow> store_token self (sent @ [primary, fallback]) login)))
      else (Inr (access_token self), self, sent))"

text \<open>
  The property \<^verbatim>\<open>authenticator\<close>: the model returns the token that is handed to
  \<^verbatim>\<open>BearerTokenAuthenticator.create_for_stream\<close>, which stores it without looking at it.
\<close>

definition authenticator ::
  "transport \<Rightarrow> stream \<Rightarrow> request list \<Rightarrow> (exn + json) \<times> stream \<times> request list" where
  "authenticator post self sent =
     (if truthy (config_get (username (config self))) \<and> password (config self) \<noteq> None
      then get_token post self sent
      else (Inr (config_get (api_key (config self))), self, sent))"

text \<open>
  \<open>n\<close> calls of \<^verbatim>\<open>get_token\<close> on the same stream object, one after the other: the object
  and the requests sent after the last one.
\<close>

fun get_token_calls ::
  "nat \<Rightarrow> transport \<Rightarrow> stream \<Rightarrow> request list \<Rightarrow> stream \<times> request list" where
  "get_token_calls 0 post self sent = (self, sent)"
| "get_token_calls (Suc n) post self sent =
     (case get_token post self sent of
        (result, self', sent') \<Rightarrow> get_token_calls n post self' sent')"

subsection \<open>The retry decorator\<close>

text \<open>
  \<^verbatim>\<open>isinstance(e, (RetriableAPIError, requests.exceptions.ReadTimeout, ConnectionError))\<close>,
  the test of the \<^verbatim>\<open>except\<close> clause that \<^verbatim>\<open>backoff.on_exception\<close> builds from the tuple.
\<close>

fun is_retried :: "exn \<Rightarrow> bool" where
  "is_retried (RetriableAPIError msg) = True"
| "is_retried ReadTimeout = True"
| "is_retried ConnectionError = True"
| "is_retried _ = False"

text \<open>
  \<^verbatim>\<open>backoff.expo(base=2, factor)\<close>: the \<open>n\<close>-th value of the wait generator. The library
  sleeps for a random time between zero and that value (its default jitter); the model
  records the value.
\<close>

definition expo :: "nat \<Rightarrow> nat \<Rightarrow> nat \<Rightarrow> nat" where
  "expo base factor n = factor * base ^ n"

text \<open>
  The loop of \<^verbatim>\<open>backoff.on_exception\<close>, as the library documents it: call the target;
  return its value; re-raise an exception outside the tuple; re-raise when the number of
  tries equals \<^verbatim>\<open>max_tries\<close>; else take the next wait, sleep and call again. \<open>target k\<close>
  is the outcome of the call made after \<open>k\<close> earlier ones. The result is the outcome, the
  number of calls and the waits taken. The loop tests \<^verbatim>\<open>tries == max_tries\<close>, so it need
  not end for every \<^verbatim>\<open>max_tries\<close>: the function is partial.
\<close>

partial_function (option) retry ::
  "(nat \<Rightarrow> nat) \<Rightarrow> (exn \<Rightarrow> bool) \<Rightarrow> nat \<Rightarrow> (nat \<Rightarrow> exn + 'a) \<Rightarrow> nat \<Rightarrow> nat list \<Rightarrow>
   ((exn + 'a) \<times> nat \<times> nat list) option" where
  "retry wait_gen exception max_tries target tries waits =
     (case target tries of
        Inr ret \<Rightarrow> Some (Inr ret, tries + 1, waits)
      | Inl e \<Rightarrow>
          if exception e then
            (if tries + 1 = max_tries then Some (Inl e, tries + 1, waits)
             else retry wait_gen exception max_tries target (tries + 1)
                    (waits @ [wait_gen (length waits)]))
          else Some (Inl e, tries + 1, waits))"

text \<open>\<^verbatim>\<open>request_decorator(self, func)\<close>: \<^verbatim>\<open>max_tries=5\<close>, \<^verbatim>\<open>factor=2\<close>.\<close>

definition request_decorator ::
  "(nat \<Rightarrow> exn + 'a) \<Rightarrow> ((exn + 'a) \<times> nat \<times> nat list) option" where
  "request_decorator func = retry (expo 2 2) is_retried 5 func 0 []"

subsection \<open>Concrete inputs\<close>

text \<open>
  A stream with no credentials and one with a user name and a password; a network that
  gives the same outcome to every request, and one whose first request of the run raises
  and whose later ones get a fixed response; a target whose first calls have the listed
  outcomes and all later ones \<open>d\<close>.
\<close>

definition example_config :: config where
  "example_config =
     \<lparr>store_url = Some ''https://shop.example'', username = None, password = None,
      api_key = None, user_agent = None\<rparr>"

definition example_stream :: stream where
  "example_stream =
     \<lparr>config = example_config, path = ''/orders'', replication_key = None,
      next_page_token_jsonpath = None, access_token = JNull\<rparr>"

definition login_config :: config where
  "login_config =
     \<lparr>store_url = Some ''https://shop.example'', username = Some ''admin'',
      password = Some ''s3cret'', api_key = None, user_agent = None\<rparr>"

definition login_stream :: stream where
  "login_stream =
     \<lparr>config = login_config, path = ''/orders'', replication_key = None,
      next_page_token_jsonpath = None, access_token = JNull\<rparr>"

definition replies :: "exn + response \<Rightarrow> transport" where
  "replies outcome sent req = outcome"

definition first_fails :: "exn \<Rightarrow> response \<Rightarrow> transport" where
  "first_fails e r sent req = (if sent = [] then Inl e else Inr r)"

definition script :: "'a list \<Rightarrow> 'a \<Rightarrow> nat \<Rightarrow> 'a" where
  "script xs d k = (if k < length xs then xs ! k else d)"

definition no_matches :: "string \<Rightarrow> json \<Rightarrow> json list" where
  "no_matches expr doc = []"

section \<open>Properties\<close>

subsection \<open>A page that was not found\<close>

text \<open>
  C8. A response with status 404, on a stream with no next-page JSON path: validation
  raises nothing, parsing yields no record, and there is no next page.
\<close>

theorem not_found_ends_stream:
  assumes "status_code response = 404"
    and "configured (next_page_token_jsonpath self) = None"
  shows "validate_response self response = Inr () \<and>
         parse_response extract_jsonpath self response = Inr [] \<and>
         get_next_page_token extract_jsonpath self response previous_token = Inr JNull"
  using assms by (simp add: validate_response_def parse_response_def get_next_page_token_def)

theorem not_found_ends_stream_witness:
  "validate_response example_stream \<lparr>status_code = 404, reason = ''Not Found'', body = None\<rparr>
     = Inr () \<and>
   parse_response no_matches example_stream
     \<lparr>status_code = 404, reason = ''Not Found'', body = None\<rparr> = Inr [] \<and>
   get_next_page_token no_matches example_stream
     \<lparr>status_code = 404, reason = ''Not Found'', body = None\<rparr> (JInt 3) = Inr JNull"
  using not_found_ends_stream
    [of "\<lparr>status_code = 404, reason = ''Not Found'', body = None\<rparr>" example_stream
        no_matches "JInt 3"]
  by (simp add: example_stream_def)

subsection \<open>Query parameters\<close>

text \<open>
  C10. On a stream whose replication key is set, \<^verbatim>\<open>order_by\<close> names the replication key
  whether or not a starting timestamp was found; when none was found, the sort and the
  three filter-group parameters are absent.
\<close>

theorem order_by_without_start_date:
  assumes "replication_key self = Some k" and "k \<noteq> []"
  shows "get_url_params self start_date strftime next_page_token ''order_by'' = Some (JStr k) \<and>
         get_url_params self None strftime next_page_token ''sort'' = None \<and>
         get_url_params self None strftime next_page_token
           ''searchCriteria[filterGroups][0][filters][0][field]'' = None \<and>
         get_url_params self None strftime next_page_token
           ''searchCriteria[filterGroups][0][filters][0][value]'' = None \<and>
         get_url_params self None strftime next_page_token
           ''searchCriteria[filterGroups][0][filters][0][conditionType]'' = None"
  using assms by (simp add: get_url_params_def Let_def split: option.splits)

theorem order_by_without_start_date_witness:
  "get_url_params (example_stream\<lparr>replication_key := Some ''updated_at''\<rparr>)
     (Some ''2024-01-01 00:00:00'') id JNull ''order_by'' = Some (JStr ''updated_at'') \<and>
   get_url_params (example_stream\<lparr>replication_key := Some ''updated_at''\<rparr>)
     None id JNull ''sort'' = None \<and>
   get_url_params (example_stream\<lparr>replication_key := Some ''updated_at''\<rparr>)
     None id JNull ''searchCriteria[filterGroups][0][filters][0][field]'' = None \<and>
   get_url_params (example_stream\<lparr>replication_key := Some ''updated_at''\<rparr>)
     None id JNull ''searchCriteria[filterGroups][0][filters][0][value]'' = None \<and>
   get_url_params (example_stream\<lparr>replication_key := Some ''updated_at''\<rparr>)
     None id JNull ''searchCriteria[filterGroups][0][filters][0][conditionType]'' = None"
proof -
  have k: "replication_key (example_stream\<lparr>replication_key := Some ''updated_at''\<rparr>) =
             Some ''updated_at''"
    by simp
  have ne: "''updated_at'' \<noteq> []"
    by simp
  show ?thesis
    using order_by_without_start_date
      [OF k ne, of "Some ''2024-01-01 00:00:00''" id JNull]
    by simp
qed

text \<open>
  The page parameters for any value of \<^verbatim>\<open>next_page_token\<close>: the current page is the
  cursor when the cursor is true in Python's sense, and 1 otherwise.
\<close>

lemma current_page_param:
  "get_url_params self start_date strftime next_page_token ''searchCriteria[pageSize]'' =
     Some (JInt 300) \<and>
   get_url_params self start_date strftime next_page_token ''searchCriteria[currentPage]'' =
     Some (if truthy next_page_token then next_page_token else JInt 1)"
  by (simp add: get_url_params_def Let_def split: option.splits)

text \<open>
  C7. A cursor is a page number counted from 1, or absent (\<^verbatim>\<open>None\<close>). For every stream,
  starting timestamp and cursor the page size is 300; the current page is the cursor
  when the cursor is a page number \<open>n \<ge> 1\<close>, and 1 when the cursor is absent.
\<close>

theorem page_params:
  "get_url_params self start_date strftime next_page_token ''searchCriteria[pageSize]'' =
     Some (JInt 300) \<and>
   (1 \<le> n \<longrightarrow>
      get_url_params self start_date strftime (JInt n) ''searchCriteria[currentPage]'' =
        Some (JInt n)) \<and>
   get_url_params self start_date strftime JNull ''searchCriteria[currentPage]'' =
     Some (JInt 1)"
  using current_page_param [of self start_date strftime next_page_token]
    current_page_param [of self start_date strftime "JInt n"]
    current_page_param [of self start_date strftime JNull]
  by simp

theorem page_params_witness:
  "get_url_params example_stream (None :: string option) id (JInt 5)
     ''searchCriteria[pageSize]'' = Some (JInt 300) \<and>
   get_url_params example_stream (None :: string option) id (JInt 5)
     ''searchCriteria[currentPage]'' = Some (JInt 5) \<and>
   get_url_params example_stream (None :: string option) id JNull
     ''searchCriteria[currentPage]'' = Some (JInt 1)"
  using page_params [of example_stream "None :: string option" id "JInt 5" 5]
  by simp

subsection \<open>Resolving the token\<close>

text \<open>
  C5. With an API key and neither user name nor password in the configuration, the
  authenticator's token is the API key, the stream object is unchanged and no request is
  sent.
\<close>

theorem api_key_token:
  assumes "username (config self) = None"
    and "password (config self) = None"
    and "api_key (config self) = Some key"
  shows "authenticator post self sent = (Inr (JStr key), self, sent)"
  using assms by (simp add: authenticator_def)

theorem api_key_token_witness:
  "authenticator (replies (Inl ReadTimeout))
     (example_stream\<lparr>config := example_config\<lparr>api_key := Some ''k3y''\<rparr>\<rparr>) [] =
   (Inr (JStr ''k3y''),
    example_stream\<lparr>config := example_config\<lparr>api_key := Some ''k3y''\<rparr>\<rparr>, [])"
  using api_key_token
    [of "example_stream\<lparr>config := example_config\<lparr>api_key := Some ''k3y''\<rparr>\<rparr>" "''k3y''"
        "replies (Inl ReadTimeout)" "[]"]
  by (simp add: example_config_def)

text \<open>
  C3, as the code has it. With no API key and without the pair of user name and
  password, the authenticator raises nothing and sends nothing: its token is \<^verbatim>\<open>None\<close>, the
  value of \<^verbatim>\<open>self.config.get('api_key')\<close>.
\<close>

theorem no_credentials_token:
  assumes "api_key (config self) = None"
    and "username (config self) = None \<or> password (config self) = None"
  shows "authenticator post self sent = (Inr JNull, self, sent)"
  using assms by (auto simp add: authenticator_def)

theorem no_credentials_token_witness:
  "authenticator (replies (Inl ReadTimeout))
     (example_stream\<lparr>config := example_config\<lparr>username := Some ''admin''\<rparr>\<rparr>) [] =
   (Inr JNull, example_stream\<lparr>config := example_config\<lparr>username := Some ''admin''\<rparr>\<rparr>, [])"
  using no_credentials_token
    [of "example_stream\<lparr>config := example_config\<lparr>username := Some ''admin''\<rparr>\<rparr>"
        "replies (Inl ReadTimeout)" "[]"]
  by (simp add: example_config_def)

text \<open>
  The claim as written fails on the configuration with no credentials at all: the
  authenticator returns a token, \<^verbatim>\<open>None\<close>, and no error.
\<close>

theorem no_credentials_no_error:
  "authenticator (replies (Inl ReadTimeout)) example_stream [] = (Inr JNull, example_stream, [])"
  by (simp add: authenticator_def example_stream_def example_config_def)

text \<open>What a call of \<^verbatim>\<open>get_token\<close> returns is what it leaves in \<^verbatim>\<open>self.access_token\<close>.\<close>

lemma get_token_stores:
  assumes "get_token post self sent = (Inr token, self', sent')"
  shows "access_token self' = token"
  using assms
  by (auto simp add: get_token_def store_token_def Let_def
      split: if_splits option.splits sum.splits)

text \<open>
  C6, as the code has it. The token is cached on the stream object: once the object's
  \<^verbatim>\<open>access_token\<close> is true in Python's sense (a non-empty token string), \<^verbatim>\<open>get_token\<close> and
  the authenticator return without sending a request and leave the stream object, and so
  the token, as it was, for any number of calls one after another; and a token that one
  call of \<^verbatim>\<open>get_token\<close> has obtained is what every later call on that object returns,
  whatever the network would answer. So each stream object obtains its token at most
  once.
\<close>

theorem token_cached:
  assumes "truthy (access_token self)"
  shows "get_token post self sent = (Inr (access_token self), self, sent) \<and>
         snd (authenticator post self sent) = (self, sent) \<and>
         (\<forall>post0 self0 sent0 token.
            get_token post0 self0 sent0 = (Inr token, self, sent) \<longrightarrow>
            get_token post self sent = (Inr token, self, sent)) \<and>
         get_token_calls n post self sent = (self, sent)"
proof -
  have cached: "get_token p self s = (Inr (access_token self), self, s)" for p s
    using assms by (simp add: get_token_def)
  have auth: "snd (authenticator post self sent) = (self, sent)"
    using cached by (simp add: authenticator_def)
  have later: "get_token post self sent = (Inr token, self, sent)"
    if "get_token post0 self0 sent0 = (Inr token, self, sent)" for post0 self0 sent0 token
    using cached get_token_stores [OF that] by simp
  have calls: "get_token_calls n post self sent = (self, sent)"
    by (induction n) (simp_all add: cached)
  from cached auth later calls show ?thesis
    by blast
qed

theorem token_cached_witness:
  "get_token
     (replies (Inr \<lparr>status_code = 200, reason = ''OK'', body = Some (JStr ''t0k3n'')\<rparr>))
     login_stream [] =
     (Inr (JStr ''t0k3n''), login_stream\<lparr>access_token := JStr ''t0k3n''\<rparr>,
      [(''https://shop.example'' @ primary_token_path, login_payload login_stream)]) \<and>
   get_token (replies (Inl ReadTimeout)) (login_stream\<lparr>access_token := JStr ''t0k3n''\<rparr>)
     [(''https://shop.example'' @ primary_token_path, login_payload login_stream)] =
     (Inr (JStr ''t0k3n''), login_stream\<lparr>access_token := JStr ''t0k3n''\<rparr>,
      [(''https://shop.example'' @ primary_token_path, login_payload login_stream)]) \<and>
   snd (authenticator (replies (Inl ReadTimeout))
          (login_stream\<lparr>access_token := JStr ''t0k3n''\<rparr>)
          [(''https://shop.example'' @ primary_token_path, login_payload login_stream)]) =
     (login_stream\<lparr>access_token := JStr ''t0k3n''\<rparr>,
      [(''https://shop.example'' @ primary_token_path, login_payload login_stream)]) \<and>
   get_token_calls 3 (replies (Inl ReadTimeout))
     (login_stream\<lparr>access_token := JStr ''t0k3n''\<rparr>)
     [(''https://shop.example'' @ primary_token_path, login_payload login_stream)] =
     (login_stream\<lparr>access_token := JStr ''t0k3n''\<rparr>,
      [(''https://shop.example'' @ primary_token_path, login_payload login_stream)])"
proof -
  let ?ok = "replies (Inr \<lparr>status_code = 200, reason = ''OK'', body = Some (JStr ''t0k3n'')\<rparr>)"
  let ?self = "login_stream\<lparr>access_token := JStr ''t0k3n''\<rparr>"
  let ?sent = "[(''https://shop.example'' @ primary_token_path, login_payload login_stream)]"
  have login: "get_token ?ok login_stream [] = (Inr (JStr ''t0k3n''), ?self, ?sent)"
    by (simp add: get_token_def store_token_def try_primary_def raise_for_status_def
        response_json_def replies_def login_stream_def login_config_def login_payload_def)
  have set: "truthy (access_token ?self)"
    by simp
  from token_cached [OF set, of "replies (Inl ReadTimeout)" ?sent 3] login show ?thesis
    by blast
qed

text \<open>
  The claim as written fails in two ways. The assignment \<^verbatim>\<open>self.access_token = ...\<close>
  writes the stream object and not the class, so a second stream object of the same run
  (here the one for another path) finds \<^verbatim>\<open>None\<close> and logs in again: the run obtains the
  token twice. And a token that is not \<^verbatim>\<open>None\<close> and still false in Python's sense, the
  empty string, is not taken as cached: \<^verbatim>\<open>get_token\<close> posts again and returns the new
  token.
\<close>

theorem token_fetched_again:
  "get_token
     (replies (Inr \<lparr>status_code = 200, reason = ''OK'', body = Some (JStr ''t0k3n'')\<rparr>))
     login_stream [] =
     (Inr (JStr ''t0k3n''), login_stream\<lparr>access_token := JStr ''t0k3n''\<rparr>,
      [(''https://shop.example'' @ primary_token_path, login_payload login_stream)]) \<and>
   get_token
     (replies (Inr \<lparr>status_code = 200, reason = ''OK'', body = Some (JStr ''t0k3n'')\<rparr>))
     (login_stream\<lparr>path := ''/products''\<rparr>)
     [(''https://shop.example'' @ primary_token_path, login_payload login_stream)] =
     (Inr (JStr ''t0k3n''), login_stream\<lparr>path := ''/products'', access_token := JStr ''t0k3n''\<rparr>,
      [(''https://shop.example'' @ primary_token_path, login_payload login_stream),
       (''https://shop.example'' @ primary_token_path, login_payload login_stream)]) \<and>
   get_token
     (replies (Inr \<lparr>status_code = 200, reason = ''OK'', body = Some (JStr ''n3w'')\<rparr>))
     (login_stream\<lparr>access_token := JStr []\<rparr>) [] =
     (Inr (JStr ''n3w''), login_stream\<lparr>access_token := JStr ''n3w''\<rparr>,
      [(''https://shop.example'' @ primary_token_path, login_payload login_stream)])"
  by (simp add: get_token_def store_token_def try_primary_def raise_for_status_def
      response_json_def replies_def login_payload_def login_stream_def login_config_def
      Let_def)

text \<open>
  C4, as the code has it. The token is not cached and the store URL is set. If the POST
  to the primary endpoint raises, or its response has a body that is not JSON or a
  status from 400 to 599 (the \<^verbatim>\<open>try\<close> block then raises in \<^verbatim>\<open>login.json()\<close> or in
  \<^verbatim>\<open>login.raise_for_status()\<close>), then exactly two requests are sent: the primary one and,
  once, the fallback one with the same payload. If the fallback response has a status
  from 400 to 599, \<^verbatim>\<open>get_token\<close> raises the \<open>HTTPError\<close> of that status and stores no
  token.
\<close>

theorem fallback_once:
  assumes "\<not> truthy (access_token self)"
    and "store_url (config self) = Some url"
    and "post sent (url @ primary_token_path, login_payload self) = Inl e \<or>
         (\<exists>r. post sent (url @ primary_token_path, login_payload self) = Inr r \<and>
              (body r = None \<or> 400 \<le> status_code r \<and> status_code r < 600))"
  shows "snd (snd (get_token post self sent)) =
           sent @ [(url @ primary_token_path, login_payload self),
                   (url @ fallback_token_path, login_payload self)] \<and>
         (\<forall>r. post (sent @ [(url @ primary_token_path, login_payload self)])
                 (url @ fallback_token_path, login_payload self) = Inr r \<and>
              400 \<le> status_code r \<and> status_code r < 600 \<longrightarrow>
              get_token post self sent =
                (Inl (HTTPError (status_code r)), self,
                 sent @ [(url @ primary_token_path, login_payload self),
                         (url @ fallback_token_path, login_payload self)]))"
  using assms
  by (auto simp add: get_token_def store_token_def try_primary_def raise_for_status_def
      response_json_def Let_def split: if_splits option.splits sum.splits)

theorem fallback_once_witness:
  "get_token
     (replies (Inr \<lparr>status_code = 401, reason = ''Unauthorized'', body = None\<rparr>))
     login_stream [] =
   (Inl (HTTPError 401), login_stream,
    [(''https://shop.example'' @ primary_token_path, login_payload login_stream),
     (''https://shop.example'' @ fallback_token_path, login_payload login_stream)])"
proof -
  let ?r = "\<lparr>status_code = 401, reason = ''Unauthorized'', body = None\<rparr>"
  have a: "\<not> truthy (access_token login_stream)"
    by (simp add: login_stream_def)
  have b: "store_url (config login_stream) = Some ''https://shop.example''"
    by (simp add: login_stream_def login_config_def)
  have c: "replies (Inr ?r) []
             (''https://shop.example'' @ primary_token_path, login_payload login_stream) =
             Inl ReadTimeout \<or>
           (\<exists>r. replies (Inr ?r) []
                  (''https://shop.example'' @ primary_token_path,
                   login_payload login_stream) = Inr r \<and>
                (body r = None \<or> 400 \<le> status_code r \<and> status_code r < 600))"
    by (simp add: replies_def)
  have d: "replies (Inr ?r)
             ([] @ [(''https://shop.example'' @ primary_token_path,
                     login_payload login_stream)])
             (''https://shop.example'' @ fallback_token_path, login_payload login_stream) =
           Inr ?r \<and> 400 \<le> status_code ?r \<and> status_code ?r < 600"
    by (simp add: replies_def)
  from fallback_once
    [where self = login_stream and url = "''https://shop.example''"
       and post = "replies (Inr ?r)" and sent = "[]" and e = ReadTimeout, OF a b c] d
  show ?thesis
    by simp
qed

text \<open>
  The claim as written fails for a fallback response whose status is no success and no
  error either: a 302 with a JSON body passes \<^verbatim>\<open>login.raise_for_status()\<close>, nothing is
  raised, and the body is stored and returned as the token.
\<close>

theorem fallback_redirect_stores_token:
  "get_token
     (first_fails ReadTimeout
        \<lparr>status_code = 302, reason = ''Found'', body = Some (JStr ''t0k3n'')\<rparr>)
     login_stream [] =
   (Inr (JStr ''t0k3n''), login_stream\<lparr>access_token := JStr ''t0k3n''\<rparr>,
    [(''https://shop.example'' @ primary_token_path, login_payload login_stream),
     (''https://shop.example'' @ fallback_token_path, login_payload login_stream)])"
  by (simp add: get_token_def store_token_def try_primary_def raise_for_status_def
      response_json_def first_fails_def login_stream_def login_config_def Let_def)

subsection \<open>The next page\<close>

text \<open>
  Where the page number can be read, the rule by the total count holds. The response is
  not a 404, the stream has no next-page JSON path, and the body is an object with an
  integer \<^verbatim>\<open>total_count\<close> (or none, read as 0) and either no \<^verbatim>\<open>search_criteria\<close> (the page
  is then 1) or a \<^verbatim>\<open>search_criteria\<close> object with an integer \<^verbatim>\<open>current_page\<close>: the next page
  is \<open>current_page + 1\<close> when \<open>total_count > current_page * 300\<close>, and there is none
  otherwise.
\<close>

lemma next_page_by_count:
  assumes "configured (next_page_token_jsonpath self) = None"
    and "status_code response \<noteq> 404"
    and "body response = Some (JObj kvs)"
    and "map_of kvs ''total_count'' = None \<and> total_count = 0 \<or>
         map_of kvs ''total_count'' = Some (JInt total_count)"
    and "map_of kvs ''search_criteria'' = None \<and> current_page = 1 \<or>
         (\<exists>sc. map_of kvs ''search_criteria'' = Some (JObj sc) \<and>
               map_of sc ''current_page'' = Some (JInt current_page))"
  shows "get_next_page_token extract_jsonpath self response previous_token =
           Inr (if total_count > current_page * 300 then JInt (current_page + 1) else JNull)"
  using assms by (auto simp add: get_next_page_token_def)

text \<open>
  C1. The default page 1 is taken only when \<^verbatim>\<open>search_criteria\<close> itself is absent or
  empty. On a body whose \<^verbatim>\<open>search_criteria\<close> has other keys and no \<^verbatim>\<open>current_page\<close>, the
  page read is \<^verbatim>\<open>None\<close>, and \<^verbatim>\<open>None * 300\<close> raises \<open>TypeError\<close>, where the claim has the
  page default to 1 and, with 301 records in total, page 2 returned.
\<close>

theorem next_page_without_current_page:
  "get_next_page_token extract_jsonpath example_stream
     \<lparr>status_code = 200, reason = ''OK'',
      body = Some (JObj [(''items'', JArr []),
                         (''search_criteria'', JObj [(''page_size'', JInt 300)]),
                         (''total_count'', JInt 301)])\<rparr>
     previous_token = Inl TypeError"
  by (simp add: get_next_page_token_def example_stream_def)

subsection \<open>Retrying a request\<close>

text \<open>A run of the loop in which the first \<open>n\<close> calls are retried and the next one ends it.\<close>

lemma retry_run:
  assumes "\<forall>k. tries \<le> k \<and> k < tries + n \<longrightarrow> (\<exists>e. target k = Inl e \<and> exception e)"
    and "tries + n < max_tries"
    and "tries + n + 1 = max_tries \<or> (\<exists>v. target (tries + n) = Inr v) \<or>
         (\<exists>e. target (tries + n) = Inl e \<and> \<not> exception e)"
  shows "retry wait_gen exception max_tries target tries waits =
           Some (target (tries + n), tries + n + 1,
                 waits @ map wait_gen [length waits ..< length waits + n])"
  using assms
proof (induction n arbitrary: tries waits)
  case 0
  then show ?case
    by (subst retry.simps) (auto split: sum.splits)
next
  case (Suc n)
  from Suc.prems(1) obtain e where e: "target tries = Inl e" "exception e"
    by (metis le_refl less_add_Suc2 add.commute add_Suc_right)
  have ne: "tries + 1 \<noteq> max_tries"
    using Suc.prems(2) by simp
  have step: "retry wait_gen exception max_tries target tries waits =
                retry wait_gen exception max_tries target (tries + 1)
                  (waits @ [wait_gen (length waits)])"
    using ne by (subst retry.simps) (simp add: e)
  have ih: "retry wait_gen exception max_tries target (tries + 1)
              (waits @ [wait_gen (length waits)]) =
            Some (target (tries + 1 + n), tries + 1 + n + 1,
              (waits @ [wait_gen (length waits)]) @
                map wait_gen [length (waits @ [wait_gen (length waits)]) ..<
                              length (waits @ [wait_gen (length waits)]) + n])"
    using Suc.prems by (intro Suc.IH) auto
  have "[length waits ..< length waits + Suc n] =
          length waits # [Suc (length waits) ..< Suc (length waits) + n]"
    by (simp add: upt_rec)
  with step ih show ?case
    by simp
qed

text \<open>
  The loop ends whenever it starts below \<^verbatim>\<open>max_tries\<close>: it makes at most \<^verbatim>\<open>max_tries\<close>
  calls in all and returns the outcome of the last one.
\<close>

lemma retry_returns:
  assumes "tries < max_tries"
  shows "\<exists>t w. retry wait_gen exception max_tries target tries waits =
                 Some (target (t - 1), t, w) \<and> tries < t \<and> t \<le> max_tries"
  using assms
proof (induction "max_tries - tries" arbitrary: tries waits)
  case 0
  then show ?case
    by simp
next
  case (Suc d)
  show ?case
  proof (cases "target tries")
    case (Inr v)
    then have "retry wait_gen exception max_tries target tries waits =
                 Some (target (tries + 1 - 1), tries + 1, waits)"
      by (subst retry.simps) simp
    with Suc.prems show ?thesis
      by (intro exI [of _ "tries + 1"] exI [of _ waits]) simp
  next
    case (Inl e)
    show ?thesis
    proof (cases "exception e \<and> tries + 1 \<noteq> max_tries")
      case False
      then have "retry wait_gen exception max_tries target tries waits =
                   Some (target (tries + 1 - 1), tries + 1, waits)"
        using Inl by (subst retry.simps) auto
      with Suc.prems show ?thesis
        by (intro exI [of _ "tries + 1"] exI [of _ waits]) simp
    next
      case True
      then have step: "retry wait_gen exception max_tries target tries waits =
                         retry wait_gen exception max_tries target (tries + 1)
                           (waits @ [wait_gen (length waits)])"
        using Inl by (subst retry.simps) simp
      have "d = max_tries - (tries + 1)" and "tries + 1 < max_tries"
        using Suc.hyps(2) Suc.prems True by auto
      from Suc.hyps(1) [OF this, of "waits @ [wait_gen (length waits)]"]
      obtain t w where
        "retry wait_gen exception max_tries target (tries + 1)
           (waits @ [wait_gen (length waits)]) = Some (target (t - 1), t, w)"
        and "tries + 1 < t" and "t \<le> max_tries"
        by blast
      with step show ?thesis
        by (intro exI [of _ t] exI [of _ w]) simp
    qed
  qed
qed

lemma is_retried_iff:
  "is_retried e \<longleftrightarrow> (\<exists>m. e = RetriableAPIError m) \<or> e = ReadTimeout \<or> e = ConnectionError"
  by (cases e) simp_all

text \<open>The run of the loop for the decorator's own parameters.\<close>

lemma request_decorator_run:
  fixes f :: "nat \<Rightarrow> exn + 'a"
  assumes "\<forall>k<i. \<exists>e. f k = Inl e \<and> is_retried e"
    and "i < 5"
    and "i = 4 \<or> (\<exists>v. f i = Inr v) \<or> (\<exists>e. f i = Inl e \<and> \<not> is_retried e)"
  shows "request_decorator f = Some (f i, i + 1, map (\<lambda>k. 2 * 2 ^ k) [0..<i])"
proof -
  have a: "\<forall>k. 0 \<le> k \<and> k < 0 + i \<longrightarrow> (\<exists>e. f k = Inl e \<and> is_retried e)"
    using assms(1) by simp
  have b: "0 + i < (5::nat)"
    using assms(2) by simp
  have c: "0 + i + 1 = 5 \<or> (\<exists>v. f (0 + i) = Inr v) \<or>
           (\<exists>e. f (0 + i) = Inl e \<and> \<not> is_retried e)"
    using assms(3) by auto
  have e: "expo 2 2 = (\<lambda>k. 2 * 2 ^ k)"
    by (simp add: expo_def fun_eq_iff)
  show ?thesis
    unfolding request_decorator_def
    using retry_run [of 0 i f is_retried 5 "expo 2 2" "[]", OF a b c] by (simp add: e)
qed

text \<open>
  Among the first five calls there is one that ends the run: the first one that does not
  satisfy \<open>P\<close>, or the fifth.
\<close>

lemma first_stop:
  fixes P :: "nat \<Rightarrow> bool"
  shows "\<exists>i. (\<forall>k<i. P k) \<and> i < 5 \<and> (i = 4 \<or> \<not> P i)"
proof (cases "\<forall>j<4. P j")
  case True
  then show ?thesis
    by (intro exI [of _ 4]) simp
next
  case False
  then obtain j where j: "j < 4" "\<not> P j"
    by blast
  define l where "l = (LEAST j. \<not> P j)"
  have stop: "\<not> P l"
    unfolding l_def using j(2) by (rule LeastI)
  have "l \<le> j"
    unfolding l_def using j(2) by (rule Least_le)
  with j(1) have bound: "l < 5"
    by simp
  have before: "\<forall>k<l. P k"
    unfolding l_def using not_less_Least by blast
  from before bound stop show ?thesis
    by blast
qed

text \<open>
  The wrapper returns for every target, and a call is followed by another one exactly
  when all calls so far raised an exception of the tuple and fewer than five were made.
\<close>

lemma request_decorator_exact:
  fixes func :: "nat \<Rightarrow> exn + 'a"
  shows "\<exists>tries. request_decorator func =
        Some (func (tries - 1), tries, map (\<lambda>k. 2 * 2 ^ k) [0..<tries - 1]) \<and>
      0 < tries \<and> tries \<le> 5 \<and>
      (\<forall>k. k + 1 < tries \<longleftrightarrow> k < 4 \<and> (\<forall>j\<le>k. \<exists>e. func j = Inl e \<and> is_retried e))"
proof -
  define P where "P j \<longleftrightarrow> (\<exists>e. func j = Inl e \<and> is_retried e)" for j
  have stop: "(\<exists>v. func j = Inr v) \<or> (\<exists>e. func j = Inl e \<and> \<not> is_retried e)" if "\<not> P j" for j
  proof (cases "func j")
    case (Inl e)
    with that show ?thesis unfolding P_def by simp
  next
    case (Inr v)
    then show ?thesis by simp
  qed
  obtain i where i: "\<forall>k<i. P k" "i < 5" "i = 4 \<or> \<not> P i"
    using first_stop [of P] by blast
  have i1: "\<forall>k<i. \<exists>e. func k = Inl e \<and> is_retried e"
    using i(1) unfolding P_def .
  have i3: "i = 4 \<or> (\<exists>v. func i = Inr v) \<or> (\<exists>e. func i = Inl e \<and> \<not> is_retried e)"
    using i(3) stop [of i] by blast
  have first: "request_decorator func = Some (func i, i + 1, map (\<lambda>k. 2 * 2 ^ k) [0..<i])"
    using i1 i(2) i3 by (rule request_decorator_run)
  have iff: "k + 1 < i + 1 \<longleftrightarrow> k < 4 \<and> (\<forall>j\<le>k. P j)" for k
  proof
    assume "k + 1 < i + 1"
    then show "k < 4 \<and> (\<forall>j\<le>k. P j)"
      using i(1) i(2) by auto
  next
    assume r: "k < 4 \<and> (\<forall>j\<le>k. P j)"
    show "k + 1 < i + 1"
    proof (rule ccontr)
      assume "\<not> k + 1 < i + 1"
      then have "i \<le> k"
        by simp
      with r have "P i" and "i \<noteq> 4"
        by auto
      with i(3) show False
        by simp
    qed
  qed
  have last: "func (i + 1 - 1) = func i" and upto: "[0..<i + 1 - 1] = [0..<i]"
    by simp_all
  have pos: "0 < i + 1" and ceiling: "i + 1 \<le> 5"
    using i(2) by simp_all
  have "request_decorator func =
          Some (func (i + 1 - 1), i + 1, map (\<lambda>k. 2 * 2 ^ k) [0..<i + 1 - 1]) \<and>
        0 < i + 1 \<and> i + 1 \<le> 5 \<and>
        (\<forall>k. k + 1 < i + 1 \<longleftrightarrow> k < 4 \<and> (\<forall>j\<le>k. P j))"
    unfolding last upto using first pos ceiling iff by blast
  then show ?thesis
    unfolding P_def by (rule exI)
qed

lemma retried_outcome_iff:
  "(\<exists>e. f j = Inl e \<and> is_retried e) \<longleftrightarrow>
   (\<exists>m. f j = Inl (RetriableAPIError m)) \<or> f j = Inl ReadTimeout \<or>
   f j = Inl ConnectionError"
  by (auto simp: is_retried_iff)

text \<open>
  C2, as the code has it. \<^verbatim>\<open>validate_response\<close> raises \<open>RetriableAPIError\<close> on a status
  from 500 to 599 and \<open>FatalAPIError\<close> on one from 400 to 499 other than 404. The wrapper
  always returns, after at most 5 calls, with the outcome of its last call unchanged and
  with the waits 2, 4, 8, 16 of the wait generator before the second to fifth call. A
  call is followed by another one exactly when it and all calls before it raised a
  \<open>RetriableAPIError\<close>, a read timeout or Python's built-in \<open>ConnectionError\<close>, and it is
  not the fifth. A \<open>FatalAPIError\<close> on the first call ends the run there. The last part
  gives the whole run: \<open>n\<close> calls that raise one of the three, then a call that returns,
  raises anything else or is the fifth.
\<close>

theorem retry_policy:
  "(500 \<le> status_code r5 \<and> status_code r5 < 600 \<longrightarrow>
      (\<exists>m. validate_response self r5 = Inl (RetriableAPIError m))) \<and>
   (400 \<le> status_code r4 \<and> status_code r4 < 500 \<and> status_code r4 \<noteq> 404 \<longrightarrow>
      (\<exists>m. validate_response self r4 = Inl (FatalAPIError m))) \<and>
   (\<exists>tries. request_decorator func =
        Some (func (tries - 1), tries, map (\<lambda>k. 2 * 2 ^ k) [0..<tries - 1]) \<and>
      0 < tries \<and> tries \<le> 5 \<and>
      (\<forall>k. k + 1 < tries \<longleftrightarrow>
         k < 4 \<and>
         (\<forall>j\<le>k. (\<exists>m. func j = Inl (RetriableAPIError m)) \<or> func j = Inl ReadTimeout \<or>
                  func j = Inl ConnectionError))) \<and>
   ((\<exists>m. fatal 0 = Inl (FatalAPIError m)) \<longrightarrow>
      request_decorator fatal = Some (fatal 0, 1, [])) \<and>
   ((\<forall>k<n. (\<exists>m. func k = Inl (RetriableAPIError m)) \<or> func k = Inl ReadTimeout \<or>
             func k = Inl ConnectionError) \<and>
    n < 5 \<and>
    (n = 4 \<or> (\<exists>v. func n = Inr v) \<or>
     (\<exists>e. func n = Inl e \<and> (\<forall>m. e \<noteq> RetriableAPIError m) \<and> e \<noteq> ReadTimeout \<and>
          e \<noteq> ConnectionError)) \<longrightarrow>
    request_decorator func = Some (func n, n + 1, map (\<lambda>k. 2 * 2 ^ k) [0..<n]))"
proof (intro conjI impI)
  show "\<exists>m. validate_response self r5 = Inl (RetriableAPIError m)"
    if "500 \<le> status_code r5 \<and> status_code r5 < 600"
    using that by (simp add: validate_response_def)
  show "\<exists>m. validate_response self r4 = Inl (FatalAPIError m)"
    if "400 \<le> status_code r4 \<and> status_code r4 < 500 \<and> status_code r4 \<noteq> 404"
    using that by (simp add: validate_response_def)
  show "\<exists>tries. request_decorator func =
          Some (func (tries - 1), tries, map (\<lambda>k. 2 * 2 ^ k) [0..<tries - 1]) \<and>
        0 < tries \<and> tries \<le> 5 \<and>
        (\<forall>k. k + 1 < tries \<longleftrightarrow>
           k < 4 \<and>
           (\<forall>j\<le>k. (\<exists>m. func j = Inl (RetriableAPIError m)) \<or> func j = Inl ReadTimeout \<or>
                    func j = Inl ConnectionError))"
    using request_decorator_exact [of func] unfolding retried_outcome_iff .
  show "request_decorator fatal = Some (fatal 0, 1, [])"
    if "\<exists>m. fatal 0 = Inl (FatalAPIError m)"
  proof -
    have "\<forall>k<0. \<exists>e. fatal k = Inl e \<and> is_retried e" and "(0::nat) < 5"
      by simp_all
    moreover have "(0::nat) = 4 \<or> (\<exists>v. fatal 0 = Inr v) \<or>
                   (\<exists>e. fatal 0 = Inl e \<and> \<not> is_retried e)"
      using that by auto
    ultimately have "request_decorator fatal =
                       Some (fatal 0, 0 + 1, map (\<lambda>k. 2 * 2 ^ k) [0..<0])"
      by (rule request_decorator_run)
    then show ?thesis
      by simp
  qed
  show "request_decorator func = Some (func n, n + 1, map (\<lambda>k. 2 * 2 ^ k) [0..<n])"
    if h: "(\<forall>k<n. (\<exists>m. func k = Inl (RetriableAPIError m)) \<or> func k = Inl ReadTimeout \<or>
                   func k = Inl ConnectionError) \<and>
           n < 5 \<and>
           (n = 4 \<or> (\<exists>v. func n = Inr v) \<or>
            (\<exists>e. func n = Inl e \<and> (\<forall>m. e \<noteq> RetriableAPIError m) \<and> e \<noteq> ReadTimeout \<and>
                 e \<noteq> ConnectionError))"
  proof (rule request_decorator_run)
    show "\<forall>k<n. \<exists>e. func k = Inl e \<and> is_retried e"
      using h unfolding retried_outcome_iff by blast
    show "n < 5"
      using h by blast
    show "n = 4 \<or> (\<exists>v. func n = Inr v) \<or> (\<exists>e. func n = Inl e \<and> \<not> is_retried e)"
      using h unfolding is_retried_iff by blast
  qed
qed

theorem retry_policy_witness:
  "validate_response example_stream
     \<lparr>status_code = 503, reason = ''Service Unavailable'', body = None\<rparr> =
     Inl (RetriableAPIError ''503 Server Error: Service Unavailable for path: /orders'') \<and>
   validate_response example_stream
     \<lparr>status_code = 403, reason = ''Forbidden'', body = None\<rparr> =
     Inl (FatalAPIError ''403 Client Error: Forbidden for path: /orders'') \<and>
   request_decorator
     (script [Inl (FatalAPIError ''403'')] (Inr (JInt 1))) =
     Some (Inl (FatalAPIError ''403''), 1, []) \<and>
   request_decorator
     (script [Inl (RetriableAPIError ''503''), Inl ReadTimeout, Inl ConnectionError,
              Inl (RetriableAPIError ''502''), Inl (RetriableAPIError ''500'')]
        (Inr (JInt 1))) =
     Some (Inl (RetriableAPIError ''500''), 5, [2, 4, 8, 16])"
proof -
  let ?r5 = "\<lparr>status_code = 503, reason = ''Service Unavailable'', body = None\<rparr>"
  let ?r4 = "\<lparr>status_code = 403, reason = ''Forbidden'', body = None\<rparr>"
  let ?f = "script [Inl (RetriableAPIError ''503''), Inl ReadTimeout, Inl ConnectionError,
                    Inl (RetriableAPIError ''502''), Inl (RetriableAPIError ''500'')]
              (Inr (JInt 1))"
  let ?g = "script [Inl (FatalAPIError ''403'')] (Inr (JInt 1))"
  have h: "(\<forall>k<4. (\<exists>m. ?f k = Inl (RetriableAPIError m)) \<or> ?f k = Inl ReadTimeout \<or>
                   ?f k = Inl ConnectionError) \<and>
           (4::nat) < 5 \<and>
           ((4::nat) = 4 \<or> (\<exists>v. ?f 4 = Inr v) \<or>
            (\<exists>e. ?f 4 = Inl e \<and> (\<forall>m. e \<noteq> RetriableAPIError m) \<and> e \<noteq> ReadTimeout \<and>
                 e \<noteq> ConnectionError))"
    by (simp add: script_def less_Suc_eq numeral_eq_Suc)
  have g: "\<exists>m. ?g 0 = Inl (FatalAPIError m)"
    by (simp add: script_def)
  have g0: "?g 0 = Inl (FatalAPIError ''403'')"
    by (simp add: script_def)
  have u: "[0..<4] = [0, 1, 2, 3::nat]"
    by (simp add: upt_rec)
  have last: "?f 4 = Inl (RetriableAPIError ''500'')"
    by (simp add: script_def)
  have m5: "validate_response example_stream ?r5 =
              Inl (RetriableAPIError ''503 Server Error: Service Unavailable for path: /orders'')"
    by (simp add: validate_response_def example_stream_def str_of_int_def)
  have m4: "validate_response example_stream ?r4 =
              Inl (FatalAPIError ''403 Client Error: Forbidden for path: /orders'')"
    by (simp add: validate_response_def example_stream_def str_of_int_def)
  note policy = retry_policy [of ?r5 example_stream ?r4 ?f ?g 4]
  have "request_decorator ?g = Some (?g 0, 1, [])"
    using policy [THEN conjunct2, THEN conjunct2, THEN conjunct2, THEN conjunct1] g
    by (rule mp)
  then have fatal: "request_decorator ?g = Some (Inl (FatalAPIError ''403''), 1, [])"
    by (simp only: g0)
  have "request_decorator ?f = Some (?f 4, 4 + 1, map (\<lambda>k. 2 * 2 ^ k) [0..<4])"
    using policy [THEN conjunct2, THEN conjunct2, THEN conjunct2, THEN conjunct2] h
    by (rule mp)
  then have five: "request_decorator ?f =
                     Some (Inl (RetriableAPIError ''500''), 5, [2, 4, 8, 16])"
    by (simp only: u last) simp
  show ?thesis
    by (intro conjI) (rule m5, rule m4, rule fatal, rule five)
qed

text \<open>
  The claim as written fails on a call that raises the built-in \<open>ConnectionError\<close>, which
  is neither a \<open>RetriableAPIError\<close> nor a read timeout: the wrapper waits and calls a
  second time.
\<close>

theorem builtin_connection_error_retried:
  "request_decorator
     (script [Inl ConnectionError,
              Inr \<lparr>status_code = 200, reason = ''OK'', body = Some (JObj [])\<rparr>]
        (Inl ReadTimeout)) =
   Some (Inr \<lparr>status_code = 200, reason = ''OK'', body = Some (JObj [])\<rparr>, 2, [2])"
  by (simp add: request_decorator_def retry.simps script_def expo_def)

text \<open>
  C9. A connection failure of the HTTP library is a \<open>RequestsConnectionError\<close>, which the
  tuple of the decorator does not cover: the wrapper makes one call and re-raises, with
  no wait and no second call, where a \<open>RetriableAPIError\<close> in the same place is retried.
\<close>

theorem requests_connection_error_not_retried:
  "request_decorator
     (script [Inl RequestsConnectionError,
              Inr \<lparr>status_code = 200, reason = ''OK'', body = Some (JObj [])\<rparr>]
        (Inl ReadTimeout)) =
     Some (Inl RequestsConnectionError, 1, []) \<and>
   request_decorator
     (script [Inl (RetriableAPIError ''503''),
              Inr \<lparr>status_code = 200, reason = ''OK'', body = Some (JObj [])\<rparr>]
        (Inl ReadTimeout)) =
     Some (Inr \<lparr>status_code = 200, reason = ''OK'', body = Some (JObj [])\<rparr>, 2, [2])"
  by (simp add: request_decorator_def retry.simps script_def expo_def)

end
